theory Spec2Isabelle
  imports Main
begin

section \<open>Text operations of the standard library used by \<open>main.py\<close>\<close>

text \<open>
  Python text is modelled by \<open>string\<close>, each \<open>char\<close> read as the code point of the same
  number (U+0000 to U+00FF).  On that range \<open>str.isspace\<close>, \<open>str.lower\<close> and the
  regular expression class \<open>[a-z]\<close> are the following functions, and \<open>str.lower\<close> does
  not leave the range.
\<close>

definition isspace :: "char \<Rightarrow> bool" where
  "isspace c =
     (let n = (of_char c :: nat)
      in (9 \<le> n \<and> n \<le> 13) \<or> (28 \<le> n \<and> n \<le> 32) \<or> n = 133 \<or> n = 160)"

definition char_lower :: "char \<Rightarrow> char" where
  "char_lower c =
     (let n = (of_char c :: nat)
      in if (65 \<le> n \<and> n \<le> 90) \<or> (192 \<le> n \<and> n \<le> 222 \<and> n \<noteq> 215)
         then char_of (n + 32) else c)"

definition str_lower :: "string \<Rightarrow> string" where
  "str_lower s = map char_lower s"

text \<open>\<open>s.strip()\<close> and \<open>s.strip(chars)\<close>: the characters to remove are given as a predicate.\<close>

definition str_strip :: "(char \<Rightarrow> bool) \<Rightarrow> string \<Rightarrow> string" where
  "str_strip p s = rev (dropWhile p (rev (dropWhile p s)))"

text \<open>
  \<open>s.split()\<close> without argument: the maximal runs of non-whitespace characters, in order.
  \<open>cur\<close> is the token being read.
\<close>

fun split_from :: "string \<Rightarrow> string \<Rightarrow> string list" where
  "split_from cur [] = (if cur = [] then [] else [cur])"
| "split_from cur (c # cs) =
     (if isspace c then (if cur = [] then split_from [] cs else cur # split_from [] cs)
      else split_from (cur @ [c]) cs)"

definition str_split :: "string \<Rightarrow> string list" where
  "str_split s = split_from [] s"

text \<open>\<open>sep.join(xs)\<close>.\<close>

fun str_join :: "string \<Rightarrow> string list \<Rightarrow> string" where
  "str_join sep [] = []"
| "str_join sep [x] = x"
| "str_join sep (x # y # ys) = x @ sep @ str_join sep (y # ys)"

text \<open>
  \<open>re.match(r'^[a-z]+$', s)\<close>: a non-empty run of the letters a to z that ends the text;
  \<open>$\<close> also matches just before a line feed that ends the text.
\<close>

definition lower_alpha :: "char \<Rightarrow> bool" where
  "lower_alpha c = (let n = (of_char c :: nat) in 97 \<le> n \<and> n \<le> 122)"

definition re_match_lower_alpha :: "string \<Rightarrow> bool" where
  "re_match_lower_alpha s =
     (let rest = dropWhile lower_alpha s
      in takeWhile lower_alpha s \<noteq> [] \<and> (rest = [] \<or> rest = [CHR 0x0A]))"

text \<open>The characters of \<open>'.,!?:;'\<close>, the argument of the second \<open>strip\<close> in \<open>main\<close>.\<close>

definition punctuation :: "char \<Rightarrow> bool" where
  "punctuation c = (c \<in> set ''.,!?:;'')"

section \<open>Errors and driver events\<close>

datatype py_error = IndexError | TimeoutError

text \<open>
  Every call the program makes on the browser driver, the file system and the logger is an
  event; a run is the list of its events in program order.  Answers of the outside world
  (is an element visible, does a wait time out, what a page shows) are read from an
  environment record.
\<close>

datatype event =
    Makedirs string
  | Write_file string string
  | Launch
  | New_context "string option"
  | New_page
  | Goto string
  | Wait_for_load_state string
  | Is_visible string
  | Wait_for_selector string nat
  | Reload
  | Storage_state string
  | Fill string string
  | Press string string
  | Click string
  | Wait_for_timeout nat
  | Svg_count nat
  | Entry_click nat
  | Text_content string
  | Close_context
  | Log_info string
  | Log_error string
  | Call_Telegram string

section \<open>\<open>Telegram(browser, title)\<close>\<close>

definition session_file :: string where
  "session_file = ''sessions/telegram_state.json''"

definition search_bar :: string where
  "search_bar = ''[placeholder=\" \"]''"

definition chats_result :: string where
  "chats_result = ''.search-super-content-chats a''"

definition message_input :: string where
  "message_input = ''.input-message-input:nth-child(1)''"

definition send_button :: string where
  "send_button = ''.btn-send > .c-ripple''"

text \<open>
  What the messaging site answers during one call: whether the session file is on disk,
  whether \<open>text=Chats\<close> is visible, whether the \<open>k\<close>-th wait for the search bar succeeds
  (\<open>False\<close> is a timeout, any exception of the wait), and whether the search shows a chat.
\<close>

record tg_env =
  session_exists :: bool
  chats_visible :: bool
  search_bar_appears :: "nat \<Rightarrow> bool"
  result_visible :: bool

text \<open>
  Lines 39 to 46, \<open>for _ in range(3)\<close>: \<open>k\<close> counts the waits already made, the \<open>nat\<close>
  argument the iterations left.  The result is \<open>login_successful\<close> and the events.
\<close>

fun login_attempts :: "(nat \<Rightarrow> bool) \<Rightarrow> nat \<Rightarrow> nat \<Rightarrow> bool \<times> event list" where
  "login_attempts w k 0 = (False, [])"
| "login_attempts w k (Suc n) =
     (if w k then (True, [Wait_for_selector search_bar 30000])
      else (case login_attempts w (Suc k) n of
              (ok, tr) \<Rightarrow> (ok, Wait_for_selector search_bar 30000 # Reload # tr)))"

text \<open>Lines 15 to 26: the browsing context is created and the site opened.\<close>

definition Telegram_open :: "tg_env \<Rightarrow> event list" where
  "Telegram_open env =
     [Makedirs ''sessions'',
      New_context (if session_exists env then Some session_file else None),
      New_page,
      Goto ''https://web.telegram.org/k/'',
      Is_visible ''text=Chats'',
      Log_info (if chats_visible env then ''Already logged in to Telegram.''
                else ''Telegram session expired, logging in again.'')]"

text \<open>Lines 36 to 76, with \<open>user_search\<close> and \<open>message\<close> as computed on lines 33 and 34.\<close>

definition Telegram_send :: "tg_env \<Rightarrow> string \<Rightarrow> string \<Rightarrow> event list" where
  "Telegram_send env user_search message =
     [Log_info (''User to search: '' @ user_search),
      Log_info (''Message to send: '' @ message)] @
     (case login_attempts (search_bar_appears env) 0 3 of
        (login_successful, tr) \<Rightarrow>
          tr @
          (if login_successful then
             [Storage_state session_file,
              Fill search_bar user_search,
              Press search_bar ''Enter'',
              Wait_for_timeout 1000,
              Is_visible chats_result] @
             (if result_visible env then
                [Click chats_result,
                 Wait_for_timeout 1000,
                 Fill message_input message,
                 Click send_button,
                 Log_info (''Sent message to '' @ user_search @ '': '' @ message),
                 Storage_state session_file,
                 Close_context]
              else
                [Log_error ''No users found, aborting.'',
                 Close_context])
           else
             [Log_error ''Failed to log in to Telegram after multiple attempts'',
              Close_context]))"

definition Telegram :: "tg_env \<Rightarrow> string \<Rightarrow> event list" where
  "Telegram env title =
     Telegram_open env @
     (let words = str_split title
      in if length words < 3 then [Log_error ''Invalid prompt format for Telegram message.'']
         else Telegram_send env (words ! 1) (str_join '' '' (drop 2 words)))"

section \<open>The ledger: table \<open>entries\<close> of \<open>journal_entries.db\<close>\<close>

text \<open>
  A row of \<open>entries (id INTEGER PRIMARY KEY AUTOINCREMENT, title TEXT, date TEXT, time TEXT)\<close>.
  The table has no other constraint.  \<open>seq\<close> is the largest id ever given, which
  \<open>AUTOINCREMENT\<close> keeps beside the table; a new row gets one more than the largest of
  \<open>seq\<close> and the ids present.  Ids are unbounded here (the engine's limit of \<open>2^63 - 1\<close>
  rows is out of reach of one insert per poll cycle).
\<close>

record ledger_row =
  rowid :: nat
  row_title :: string
  row_date :: string
  row_time :: string

record ledger =
  rows :: "ledger_row list"
  seq :: nat

definition empty_ledger :: ledger where
  "empty_ledger = \<lparr>rows = [], seq = 0\<rparr>"

text \<open>\<open>CREATE TABLE IF NOT EXISTS\<close>: \<open>None\<close> is a database file without the table.\<close>

definition init_db :: "ledger option \<Rightarrow> ledger" where
  "init_db f = (case f of None \<Rightarrow> empty_ledger | Some db \<Rightarrow> db)"

definition row_matches :: "string \<Rightarrow> string \<Rightarrow> string \<Rightarrow> ledger_row \<Rightarrow> bool" where
  "row_matches t d tm r = (row_title r = t \<and> row_date r = d \<and> row_time r = tm)"

definition entry_exists :: "ledger \<Rightarrow> string \<Rightarrow> string \<Rightarrow> string \<Rightarrow> bool" where
  "entry_exists db t d tm = list_ex (row_matches t d tm) (rows db)"

definition next_rowid :: "ledger \<Rightarrow> nat" where
  "next_rowid db = Suc (fold max (map rowid (rows db)) (seq db))"

definition save_entry :: "ledger \<Rightarrow> string \<Rightarrow> string \<Rightarrow> string \<Rightarrow> ledger" where
  "save_entry db t d tm =
     \<lparr>rows = rows db @ [\<lparr>rowid = next_rowid db, row_title = t, row_date = d, row_time = tm\<rparr>],
      seq = next_rowid db\<rparr>"

section \<open>\<open>main\<close>: start-up\<close>

definition state_file :: string where
  "state_file = ''sessions/rabbithole_state.json''"

text \<open>
  Lines 132 to 138.  A file is its content, \<open>None\<close> when it does not exist;
  \<open>os.stat(state_file).st_size == 0\<close> is the empty content, and \<open>json.dump({}, f)\<close>
  writes the two characters \<open>{}\<close>.  The result is the file afterwards and the events.
\<close>

definition prepare_state_file :: "string option \<Rightarrow> string option \<times> event list" where
  "prepare_state_file f =
     (if f = None \<or> f = Some [] then
        (Some ''{}'', [Makedirs ''sessions'', Write_file state_file ''{}''])
      else (f, [Makedirs ''sessions'']))"

record main_env =
  ledger_file :: "ledger option"
  state_file_content :: "string option"
  rh_email :: string
  rh_pass :: string
  username_visible :: bool
  username_appears :: bool
  password_appears :: bool

text \<open>
  Lines 145 to 155, the login on the journal site.  The two waits are not guarded: a
  timeout leaves \<open>main\<close> as an exception, \<open>Some TimeoutError\<close> here.
\<close>

definition journal_login :: "main_env \<Rightarrow> py_error option \<times> event list" where
  "journal_login env =
     (let tr0 = [Goto ''https://hole.rabbit.tech'', Is_visible ''input#username''] in
      if \<not> username_visible env then (None, tr0 @ [Log_info ''Already logged in.''])
      else
        let tr1 = tr0 @ [Wait_for_selector ''input#username'' 30000] in
        if \<not> username_appears env then (Some TimeoutError, tr1)
        else
          let tr2 = tr1 @ [Fill ''input#username'' (rh_email env),
                           Wait_for_selector ''input#password'' 30000] in
          if \<not> password_appears env then (Some TimeoutError, tr2)
          else
            (None,
             tr2 @ [Fill ''input#password'' (rh_pass env),
                    Click ''button[type=\"submit\"][data-action-button-primary=\"true\"]'',
                    Wait_for_load_state ''load'',
                    Storage_state state_file]))"

record startup_result =
  startup_error :: "py_error option"
  startup_ledger :: ledger
  startup_state_file :: "string option"
  startup_events :: "event list"

text \<open>
  Lines 130 to 155.  \<open>startup_state_file\<close> is the session file as the browsing context
  of line 142 reads it.
\<close>

definition main_startup :: "main_env \<Rightarrow> startup_result" where
  "main_startup env =
     (case prepare_state_file (state_file_content env) of
        (f, tr0) \<Rightarrow>
          (case journal_login env of
             (err, tr1) \<Rightarrow>
               \<lparr>startup_error = err,
                startup_ledger = init_db (ledger_file env),
                startup_state_file = f,
                startup_events = tr0 @ [Launch, New_context (Some state_file), New_page] @ tr1\<rparr>))"

section \<open>\<open>main\<close>: one cycle of the polling loop\<close>

text \<open>
  A rendered list item: the number of \<open>svg\<close> elements inside it, and the title, date and
  time the page shows once the item is clicked.
\<close>

record journal_entry =
  svg_count :: nat
  entry_title :: string
  entry_date :: string
  entry_time :: string

text \<open>
  What the journal site answers during one cycle: the message of the exception if the wait
  for the list fails (\<open>None\<close> if the list appears), the rendered items in document order,
  and the answers of the messaging site should \<open>Telegram\<close> be called.
\<close>

record cycle_env =
  list_wait_error :: "string option"
  entries :: "journal_entry list"
  telegram_env :: tg_env

definition entries_selector :: string where
  "entries_selector = ''.w-full:nth-child(2) > .mb-8 li''"

text \<open>Lines 158 to 163, and the three reads of lines 184 to 186.\<close>

definition cycle_start :: "event list" where
  "cycle_start =
     [Goto ''https://hole.rabbit.tech/journal/details'',
      Wait_for_load_state ''load'',
      Log_info ''Waiting for journal entries to appear...'',
      Wait_for_selector entries_selector 15000]"

definition read_details :: "event list" where
  "read_details =
     [Text_content ''.text-white-400'',
      Text_content ''.text-sm > div:nth-child(1)'',
      Text_content ''.text-sm > div:nth-child(2)'']"

text \<open>
  Lines 172 to 177: \<open>i\<close> is the index of the head of the list.  The result is the item
  clicked (\<open>found_valid_entry\<close> is \<open>False\<close> when there is none) and the events.
\<close>

fun select_entry :: "journal_entry list \<Rightarrow> nat \<Rightarrow> journal_entry option \<times> event list" where
  "select_entry [] i = (None, [])"
| "select_entry (e # es) i =
     (if svg_count e = 0 then (Some e, [Svg_count i, Entry_click i])
      else (case select_entry es (Suc i) of (r, tr) \<Rightarrow> (r, Svg_count i # tr)))"

text \<open>Line 197; \<open>[0]\<close> on the empty list raises \<open>IndexError\<close>.\<close>

definition first_word :: "string \<Rightarrow> py_error + string" where
  "first_word title =
     (case str_split title of
        [] \<Rightarrow> Inl IndexError
      | w # ws \<Rightarrow> Inr (str_strip punctuation (str_lower (str_strip isspace w))))"

text \<open>Lines 196 to 201, the dispatch of a new entry.\<close>

definition dispatch :: "tg_env \<Rightarrow> string \<Rightarrow> py_error + event list" where
  "dispatch env title =
     (case first_word title of
        Inl err \<Rightarrow> Inl err
      | Inr fw \<Rightarrow>
          Inr (Log_info (''First word of title: '' @ fw) #
               (if re_match_lower_alpha fw \<and> fw = ''telegram'' then
                  Log_info (''Calling Telegram function with title: '' @ title) #
                  Call_Telegram title #
                  Telegram env title
                else [])))"

record cycle_result =
  raised :: "py_error option"
  ledger_after :: ledger
  events :: "event list"

text \<open>
  Lines 158 to 201, one iteration of \<open>while True\<close>.  \<open>raised = None\<close>: the loop goes on to
  the next iteration; \<open>raised = Some e\<close>: the exception leaves \<open>main\<close>.
\<close>

definition poll_cycle :: "cycle_env \<Rightarrow> ledger \<Rightarrow> cycle_result" where
  "poll_cycle env db =
     (let tr0 = cycle_start in
      case list_wait_error env of
        Some msg \<Rightarrow>
          \<lparr>raised = None, ledger_after = db,
           events = tr0 @ [Log_error (''Error waiting for journal entries: '' @ msg)]\<rparr>
      | None \<Rightarrow>
          (case select_entry (entries env) 0 of
             (None, tr1) \<Rightarrow>
               \<lparr>raised = None, ledger_after = db,
                events = tr0 @ tr1 @
                  [Log_info ''No valid entries without SVG found, reloading...'']\<rparr>
           | (Some e, tr1) \<Rightarrow>
               (let title = entry_title e; date = entry_date e; time = entry_time e;
                    tr2 = tr0 @ tr1 @ read_details in
                if entry_exists db title date time then
                  \<lparr>raised = None, ledger_after = db,
                   events = tr2 @
                     [Log_info ''DB entry already exists, reloading to check for new entries...'']\<rparr>
                else
                  (let db' = save_entry db title date time;
                       tr3 = tr2 @ [Log_info (''Saved entry: '' @ title @ '', '' @ date @
                                              '', '' @ time)] in
                   case dispatch (telegram_env env) title of
                     Inl err \<Rightarrow> \<lparr>raised = Some err, ledger_after = db', events = tr3\<rparr>
                   | Inr tr4 \<Rightarrow> \<lparr>raised = None, ledger_after = db', events = tr3 @ tr4\<rparr>))))"

text \<open>
  The loop never ends by itself; \<open>run_cycles\<close> runs it for as many iterations as
  environments are given, or until an exception leaves it.
\<close>

fun run_cycles :: "cycle_env list \<Rightarrow> ledger \<Rightarrow> cycle_result" where
  "run_cycles [] db = \<lparr>raised = None, ledger_after = db, events = []\<rparr>"
| "run_cycles (env # envs) db =
     (let r = poll_cycle env db in
      case raised r of
        Some err \<Rightarrow> r
      | None \<Rightarrow>
          (let r' = run_cycles envs (ledger_after r)
           in r'\<lparr>events := events r @ events r'\<rparr>))"

section \<open>Observations on runs\<close>

text \<open>The key of a row, and the index of the first rendered item without an \<open>svg\<close>.\<close>

definition row_key :: "ledger_row \<Rightarrow> string \<times> string \<times> string" where
  "row_key r = (row_title r, row_date r, row_time r)"

definition first_unmarked :: "journal_entry list \<Rightarrow> nat \<Rightarrow> bool" where
  "first_unmarked es i =
     (i < length es \<and> svg_count (es ! i) = 0 \<and> list_all (\<lambda>e. svg_count e \<noteq> 0) (take i es))"

text \<open>
  The keyword of a title as the specification words it: the first token, lowercased, with
  surrounding punctuation stripped, where punctuation is every punctuation character of
  ASCII (\<open>!\<close> to \<open>/\<close>, \<open>:\<close> to \<open>@\<close>, \<open>[\<close> to the backquote, \<open>{\<close> to \<open>~\<close>), not only the six
  characters that line 197 strips.
\<close>

definition spec_punctuation :: "char \<Rightarrow> bool" where
  "spec_punctuation c =
     (let n = (of_char c :: nat)
      in (33 \<le> n \<and> n \<le> 47) \<or> (58 \<le> n \<and> n \<le> 64) \<or> (91 \<le> n \<and> n \<le> 96) \<or>
         (123 \<le> n \<and> n \<le> 126))"

definition spec_keyword :: "string \<Rightarrow> py_error + string" where
  "spec_keyword title =
     (case str_split title of
        [] \<Rightarrow> Inl IndexError
      | w # ws \<Rightarrow> Inr (str_strip spec_punctuation (str_lower w)))"

text \<open>Kinds of events, for counting them in a run.\<close>

fun is_marker_wait :: "event \<Rightarrow> bool" where
  "is_marker_wait (Wait_for_selector s n) = (s = search_bar)"
| "is_marker_wait e = False"

fun is_reload :: "event \<Rightarrow> bool" where
  "is_reload Reload = True"
| "is_reload e = False"

fun is_click :: "event \<Rightarrow> bool" where
  "is_click (Click s) = True"
| "is_click e = False"

fun is_compose :: "event \<Rightarrow> bool" where
  "is_compose (Fill s t) = (s = message_input)"
| "is_compose e = False"

fun is_file_write :: "event \<Rightarrow> bool" where
  "is_file_write (Write_file p c) = True"
| "is_file_write (Storage_state p) = True"
| "is_file_write e = False"

section \<open>Sample inputs\<close>

definition sample_tg :: tg_env where
  "sample_tg = \<lparr>session_exists = False, chats_visible = False,
                 search_bar_appears = (\<lambda>k. k = 1), result_visible = True\<rparr>"

definition sample_entries :: "journal_entry list" where
  "sample_entries =
     [\<lparr>svg_count = 1, entry_title = ''telegram bob hi'', entry_date = ''Nov 3'',
       entry_time = ''10:00''\<rparr>,
      \<lparr>svg_count = 0, entry_title = ''telegram alice hello there'', entry_date = ''Nov 3'',
       entry_time = ''09:30''\<rparr>,
      \<lparr>svg_count = 0, entry_title = ''note buy milk'', entry_date = ''Nov 2'',
       entry_time = ''18:00''\<rparr>]"

definition sample_cycle :: cycle_env where
  "sample_cycle = \<lparr>list_wait_error = None, entries = sample_entries, telegram_env = sample_tg\<rparr>"

definition marked_entries :: "journal_entry list" where
  "marked_entries =
     [\<lparr>svg_count = 2, entry_title = ''telegram bob hi'', entry_date = ''Nov 3'',
       entry_time = ''10:00''\<rparr>,
      \<lparr>svg_count = 1, entry_title = ''telegram alice hello there'', entry_date = ''Nov 3'',
       entry_time = ''09:30''\<rparr>]"

definition marked_cycle :: cycle_env where
  "marked_cycle = \<lparr>list_wait_error = None, entries = marked_entries, telegram_env = sample_tg\<rparr>"

definition blank_cycle :: cycle_env where
  "blank_cycle =
     \<lparr>list_wait_error = None,
      entries = [\<lparr>svg_count = 0, entry_title = ''  '', entry_date = ''Nov 3'',
                 entry_time = ''11:00''\<rparr>],
      telegram_env = sample_tg\<rparr>"

definition offline_tg :: tg_env where
  "offline_tg = \<lparr>session_exists = False, chats_visible = False,
                  search_bar_appears = (\<lambda>k. False), result_visible = False\<rparr>"

definition no_chat_tg :: tg_env where
  "no_chat_tg = \<lparr>session_exists = True, chats_visible = True,
                  search_bar_appears = (\<lambda>k. k = 2), result_visible = False\<rparr>"

definition fresh_main :: main_env where
  "fresh_main = \<lparr>ledger_file = None, state_file_content = None,
                  rh_email = ''user@example.org'', rh_pass = ''secret'',
                  username_visible = True, username_appears = True, password_appears = True\<rparr>"

section \<open>Command grammar and dispatch\<close>

lemma re_match_telegram: "re_match_lower_alpha ''telegram''"
  by code_simp

text \<open>
  Claim C1, amended: the punctuation that is stripped is the six characters \<open>.,!?:;\<close>.
  Whenever the title has at least three whitespace-separated tokens and its first
  token, lowercased and with the characters \<open>.,!?:;\<close> stripped from both ends, is
  \<open>telegram\<close>, the dispatch step calls \<open>Telegram\<close>, which works with the second token as
  the conversation to search and with the remaining tokens joined by single spaces as the
  message.  The title \<open>telegram alice hello there\<close> gives \<open>alice\<close> and \<open>hello there\<close>, the
  title \<open>Telegram Bob hi\<close> is routed as well, and a title whose first word is anything
  else only logs that word: no handler is called.
\<close>

theorem dispatch_command_grammar:
  "(3 \<le> length (str_split t1) \<and> first_word t1 = Inr ''telegram'' \<longrightarrow>
      dispatch env t1 =
        Inr ([Log_info ''First word of title: telegram'',
              Log_info (''Calling Telegram function with title: '' @ t1),
              Call_Telegram t1] @
             Telegram_open env @
             Telegram_send env (str_split t1 ! 1) (str_join '' '' (drop 2 (str_split t1))))) \<and>
   dispatch env ''telegram alice hello there'' =
     Inr ([Log_info ''First word of title: telegram'',
           Log_info ''Calling Telegram function with title: telegram alice hello there'',
           Call_Telegram ''telegram alice hello there''] @
          Telegram_open env @ Telegram_send env ''alice'' ''hello there'') \<and>
   dispatch env ''Telegram Bob hi'' =
     Inr ([Log_info ''First word of title: telegram'',
           Log_info ''Calling Telegram function with title: Telegram Bob hi'',
           Call_Telegram ''Telegram Bob hi''] @
          Telegram_open env @ Telegram_send env ''Bob'' ''hi'') \<and>
   (first_word t2 = Inr fw \<and> fw \<noteq> ''telegram'' \<longrightarrow>
      dispatch env t2 = Inr [Log_info (''First word of title: '' @ fw)])"
proof -
  have general: "dispatch env t =
        Inr ([Log_info ''First word of title: telegram'',
              Log_info (''Calling Telegram function with title: '' @ t),
              Call_Telegram t] @
             Telegram_open env @
             Telegram_send env (str_split t ! 1) (str_join '' '' (drop 2 (str_split t))))"
    if "3 \<le> length (str_split t)" and "first_word t = Inr ''telegram''" for t
    using that re_match_telegram by (simp add: dispatch_def Telegram_def Let_def)
  have s1: "str_split ''telegram alice hello there'' =
      [''telegram'', ''alice'', ''hello'', ''there'']"
    by code_simp
  have f1: "first_word ''telegram alice hello there'' = Inr ''telegram''"
    by code_simp
  have s2: "str_split ''Telegram Bob hi'' = [''Telegram'', ''Bob'', ''hi'']"
    by code_simp
  have f2: "first_word ''Telegram Bob hi'' = Inr ''telegram''"
    by code_simp
  have other: "dispatch env t2 = Inr [Log_info (''First word of title: '' @ fw)]"
    if "first_word t2 = Inr fw" and "fw \<noteq> ''telegram''"
    using that by (simp add: dispatch_def)
  show ?thesis
    using general [of t1] general [of "''telegram alice hello there''"]
      general [of "''Telegram Bob hi''"] other
    by (simp add: s1 f1 s2 f2)
qed

theorem dispatch_command_grammar_witness:
  "3 \<le> length (str_split ''TELEGRAM: carol  see you soon'') \<and>
   first_word ''TELEGRAM: carol  see you soon'' = Inr ''telegram'' \<and>
   dispatch \<lparr>session_exists = True, chats_visible = True,
             search_bar_appears = (\<lambda>k. True), result_visible = True\<rparr>
     ''TELEGRAM: carol  see you soon'' =
     Inr ([Log_info ''First word of title: telegram'',
           Log_info ''Calling Telegram function with title: TELEGRAM: carol  see you soon'',
           Call_Telegram ''TELEGRAM: carol  see you soon''] @
          Telegram_open \<lparr>session_exists = True, chats_visible = True,
             search_bar_appears = (\<lambda>k. True), result_visible = True\<rparr> @
          Telegram_send \<lparr>session_exists = True, chats_visible = True,
             search_bar_appears = (\<lambda>k. True), result_visible = True\<rparr>
            ''carol'' ''see you soon'') \<and>
   first_word ''note buy milk'' = Inr ''note'' \<and> ''note'' \<noteq> ''telegram'' \<and>
   dispatch \<lparr>session_exists = True, chats_visible = True,
             search_bar_appears = (\<lambda>k. True), result_visible = True\<rparr>
     ''note buy milk'' = Inr [Log_info ''First word of title: note'']"
proof -
  have s: "str_split ''TELEGRAM: carol  see you soon'' =
      [''TELEGRAM:'', ''carol'', ''see'', ''you'', ''soon'']"
    by code_simp
  have f: "first_word ''TELEGRAM: carol  see you soon'' = Inr ''telegram''"
    by code_simp
  have n: "first_word ''note buy milk'' = Inr ''note''"
    by code_simp
  show ?thesis
    using dispatch_command_grammar
      [of "''TELEGRAM: carol  see you soon''"
          "\<lparr>session_exists = True, chats_visible = True,
            search_bar_appears = (\<lambda>k. True), result_visible = True\<rparr>"
          "''note buy milk''" "''note''"]
    by (simp add: s f n)
qed

text \<open>
  Claim C1, as stated, fails for other punctuation.  The title \<open>(telegram) bob hi\<close> has
  three tokens, and its first token, lowercased and with surrounding punctuation
  stripped, is \<open>telegram\<close>, made of lowercase letters only.  Line 197 leaves the
  parentheses in place, so the first word is \<open>(telegram)\<close> and the dispatch step only
  logs it: \<open>Telegram\<close> is not called.
\<close>

theorem parenthesised_keyword_not_routed:
  "3 \<le> length (str_split ''(telegram) bob hi'') \<and>
   spec_keyword ''(telegram) bob hi'' = Inr ''telegram'' \<and>
   re_match_lower_alpha ''telegram'' \<and>
   first_word ''(telegram) bob hi'' = Inr ''(telegram)'' \<and>
   dispatch offline_tg ''(telegram) bob hi'' =
     Inr [Log_info ''First word of title: (telegram)'']"
proof -
  have s: "str_split ''(telegram) bob hi'' = [''(telegram)'', ''bob'', ''hi'']"
    by code_simp
  have k: "spec_keyword ''(telegram) bob hi'' = Inr ''telegram''"
    by code_simp
  have f: "first_word ''(telegram) bob hi'' = Inr ''(telegram)''"
    by code_simp
  have d: "dispatch offline_tg ''(telegram) bob hi'' =
     Inr [Log_info ''First word of title: (telegram)'']"
    by (simp add: dispatch_def f)
  show ?thesis
    using re_match_telegram by (simp add: s k f d)
qed

section \<open>The ledger only grows\<close>

lemma fold_max_ge: "(a::nat) \<le> fold max xs a"
proof (induction xs arbitrary: a)
  case Nil
  show ?case by simp
next
  case (Cons x xs)
  have "a \<le> max x a" by simp
  also have "\<dots> \<le> fold max xs (max x a)" by (rule Cons.IH)
  finally show ?case by simp
qed

lemma next_rowid_save: "next_rowid db < next_rowid (save_entry db t d tm)"
proof -
  have "next_rowid db \<le> fold max (map rowid (rows db) @ [next_rowid db]) (next_rowid db)"
    by (rule fold_max_ge)
  then show ?thesis
    by (simp add: save_entry_def next_rowid_def)
qed

lemma entry_exists_save: "entry_exists (save_entry db t d tm) t d tm"
  by (simp add: entry_exists_def save_entry_def row_matches_def)

lemma entry_exists_keys:
  "entry_exists db t d tm \<longleftrightarrow> (t, d, tm) \<in> set (map row_key (rows db))"
  by (auto simp: entry_exists_def list_ex_iff row_matches_def row_key_def)

lemma poll_cycle_ledger:
  "ledger_after (poll_cycle env db) = db \<or>
   (\<exists>e. fst (select_entry (entries env) 0) = Some e \<and>
        \<not> entry_exists db (entry_title e) (entry_date e) (entry_time e) \<and>
        ledger_after (poll_cycle env db) =
          save_entry db (entry_title e) (entry_date e) (entry_time e))"
  by (auto simp: poll_cycle_def Let_def split: option.splits prod.splits sum.splits)

lemma poll_cycle_rows:
  "\<exists>new. rows (ledger_after (poll_cycle env db)) = rows db @ new"
  using poll_cycle_ledger [of env db] by (auto simp: save_entry_def)

lemma run_cycles_rows:
  "\<exists>new. rows (ledger_after (run_cycles envs db)) = rows db @ new"
proof (induction envs arbitrary: db)
  case Nil
  show ?case by simp
next
  case (Cons env envs)
  obtain n1 where n1: "rows (ledger_after (poll_cycle env db)) = rows db @ n1"
    using poll_cycle_rows by blast
  show ?case
  proof (cases "raised (poll_cycle env db)")
    case None
    obtain n2 where "rows (ledger_after (run_cycles envs (ledger_after (poll_cycle env db)))) =
        rows (ledger_after (poll_cycle env db)) @ n2"
      using Cons.IH by blast
    with None n1 show ?thesis by (simp add: Let_def)
  next
    case (Some err)
    with n1 show ?thesis by (simp add: Let_def)
  qed
qed

lemma poll_cycle_distinct:
  assumes "distinct (map row_key (rows db))"
  shows "distinct (map row_key (rows (ledger_after (poll_cycle env db))))"
  using poll_cycle_ledger [of env db] assms
  by (auto simp: entry_exists_keys save_entry_def row_key_def)

lemma run_cycles_distinct:
  "distinct (map row_key (rows db)) \<Longrightarrow>
   distinct (map row_key (rows (ledger_after (run_cycles envs db))))"
proof (induction envs arbitrary: db)
  case Nil
  then show ?case by simp
next
  case (Cons env envs)
  then show ?case
    by (cases "raised (poll_cycle env db)") (simp_all add: Let_def poll_cycle_distinct)
qed

text \<open>
  Claim C8.  Right after \<open>save_entry\<close> the key is found by \<open>entry_exists\<close>, and it is
  still found after any number of further poll cycles.  The operations that touch the
  ledger are \<open>init_db\<close>, \<open>entry_exists\<close> (a query) and \<open>save_entry\<close>; none removes or
  changes a row: the rows present before any run of poll cycles, or before an insert, are
  the first rows afterwards, unchanged and in the same order, and \<open>init_db\<close> on an existing
  table leaves it as it is.
\<close>

theorem ledger_append_only:
  "entry_exists (save_entry db t d tm) t d tm \<and>
   entry_exists (ledger_after (run_cycles envs (save_entry db t d tm))) t d tm \<and>
   take (length (rows db)) (rows (ledger_after (run_cycles envs db))) = rows db \<and>
   take (length (rows db)) (rows (save_entry db t' d' tm')) = rows db \<and>
   init_db (Some db) = db"
proof -
  obtain new where new: "rows (ledger_after (run_cycles envs (save_entry db t d tm))) =
      rows (save_entry db t d tm) @ new"
    using run_cycles_rows by blast
  have later: "entry_exists (ledger_after (run_cycles envs (save_entry db t d tm))) t d tm"
    using entry_exists_save [of db t d tm] by (simp add: entry_exists_def new)
  obtain new' where "rows (ledger_after (run_cycles envs db)) = rows db @ new'"
    using run_cycles_rows by blast
  then have kept: "take (length (rows db)) (rows (ledger_after (run_cycles envs db))) = rows db"
    by simp
  have kept1: "take (length (rows db)) (rows (save_entry db t' d' tm')) = rows db"
    by (simp add: save_entry_def)
  have init: "init_db (Some db) = db"
    by (simp add: init_db_def)
  show ?thesis
    using entry_exists_save later kept kept1 init by blast
qed

text \<open>
  Claim C9.  \<open>save_entry\<close> does not check the key: two inserts of the same key append two
  rows that differ only in their ids, the second id larger than the first, so the number
  of rows with that key grows by two and the keys of the table are no longer distinct.
  Poll cycles, which ask \<open>entry_exists\<close> before every insert, keep the keys of a table
  distinct when they were distinct before.
\<close>

theorem insert_not_unique:
  "rows (save_entry (save_entry db t d tm) t d tm) =
     rows db @
     [\<lparr>rowid = next_rowid db, row_title = t, row_date = d, row_time = tm\<rparr>,
      \<lparr>rowid = next_rowid (save_entry db t d tm), row_title = t, row_date = d, row_time = tm\<rparr>] \<and>
   next_rowid db < next_rowid (save_entry db t d tm) \<and>
   length (filter (row_matches t d tm) (rows (save_entry (save_entry db t d tm) t d tm))) =
     length (filter (row_matches t d tm) (rows db)) + 2 \<and>
   \<not> distinct (map row_key (rows (save_entry (save_entry db t d tm) t d tm))) \<and>
   (distinct (map row_key (rows db)) \<longrightarrow>
      distinct (map row_key (rows (ledger_after (run_cycles envs db)))))"
  using next_rowid_save [of db t d tm] run_cycles_distinct [of db envs]
  by (simp add: save_entry_def row_matches_def row_key_def)

section \<open>Selection, deduplication and marker exclusion\<close>

lemma select_entry_Cons:
  "select_entry (e # es) i =
     (if svg_count e = 0 then (Some e, [Svg_count i, Entry_click i])
      else (fst (select_entry es (Suc i)), Svg_count i # snd (select_entry es (Suc i))))"
  by (simp split: prod.splits)

lemma select_entry_fst: "fst (select_entry es i) = find (\<lambda>e. svg_count e = 0) es"
  by (induction es arbitrary: i) (simp_all add: select_entry_Cons del: select_entry.simps(2))

lemma select_entry_snd:
  "snd (select_entry es i) =
     map Svg_count [i..<i + length (takeWhile (\<lambda>e. svg_count e \<noteq> 0) es)] @
     (if length (takeWhile (\<lambda>e. svg_count e \<noteq> 0) es) < length es
      then [Svg_count (i + length (takeWhile (\<lambda>e. svg_count e \<noteq> 0) es)),
            Entry_click (i + length (takeWhile (\<lambda>e. svg_count e \<noteq> 0) es))]
      else [])"
proof (induction es arbitrary: i)
  case Nil
  show ?case by simp
next
  case (Cons e es)
  define L where "L = length (takeWhile (\<lambda>e. svg_count e \<noteq> 0) es)"
  show ?case
  proof (cases "svg_count e = 0")
    case True
    then show ?thesis by simp
  next
    case False
    have upt: "[i..<Suc (i + L)] = i # [Suc i..<Suc (i + L)]"
      by (rule upt_conv_Cons) simp
    have "snd (select_entry (e # es) i) = Svg_count i # snd (select_entry es (Suc i))"
      using False by (simp add: select_entry_Cons del: select_entry.simps(2))
    also have "\<dots> = Svg_count i # (map Svg_count [Suc i..<Suc (i + L)] @
        (if L < length es then [Svg_count (Suc (i + L)), Entry_click (Suc (i + L))] else []))"
      using Cons.IH [of "Suc i"] by (simp add: L_def)
    also have "\<dots> = map Svg_count [i..<Suc (i + L)] @
        (if L < length es then [Svg_count (Suc (i + L)), Entry_click (Suc (i + L))] else [])"
      by (simp only: upt list.map append_Cons)
    finally show ?thesis
      using False by (simp add: L_def)
  qed
qed

lemma first_unmarked_takeWhile:
  "first_unmarked es i \<longleftrightarrow>
     i = length (takeWhile (\<lambda>e. svg_count e \<noteq> 0) es) \<and> i < length es"
proof (induction es arbitrary: i)
  case Nil
  show ?case by (simp add: first_unmarked_def)
next
  case (Cons e es)
  show ?case
  proof (cases i)
    case 0
    then show ?thesis by (auto simp: first_unmarked_def)
  next
    case (Suc j)
    with Cons.IH [of j] show ?thesis by (auto simp: first_unmarked_def)
  qed
qed

lemma first_unmarked_Cons:
  "first_unmarked (e # es) i =
     (if svg_count e = 0 then i = 0 else (case i of 0 \<Rightarrow> False | Suc j \<Rightarrow> first_unmarked es j))"
  by (cases i) (auto simp: first_unmarked_def)

lemma find_first_unmarked:
  "find (\<lambda>e. svg_count e = 0) es = Some e \<Longrightarrow> \<exists>i. first_unmarked es i \<and> e = es ! i"
proof (induction es)
  case Nil
  then show ?case by simp
next
  case (Cons x es)
  show ?case
  proof (cases "svg_count x = 0")
    case True
    with Cons.prems have "first_unmarked (x # es) 0 \<and> e = (x # es) ! 0"
      by (simp add: first_unmarked_Cons)
    then show ?thesis by blast
  next
    case False
    with Cons obtain j where "first_unmarked es j" and "e = es ! j"
      by auto
    with False have "first_unmarked (x # es) (Suc j) \<and> e = (x # es) ! Suc j"
      by (simp add: first_unmarked_Cons)
    then show ?thesis by blast
  qed
qed

lemma find_none_marked:
  "find (\<lambda>e. svg_count e = 0) es = None \<longleftrightarrow> list_all (\<lambda>e. svg_count e \<noteq> 0) es"
  by (auto simp: find_None_iff list_all_iff)

lemma entry_click_select:
  "Entry_click j \<in> set (snd (select_entry es 0)) \<longleftrightarrow> first_unmarked es j"
  by (auto simp: select_entry_snd first_unmarked_takeWhile)

lemma call_not_select: "Call_Telegram t \<notin> set (snd (select_entry es i))"
  by (auto simp: select_entry_snd)

lemma login_attempts_Suc:
  "login_attempts w k (Suc n) =
     (if w k then (True, [Wait_for_selector search_bar 30000])
      else (fst (login_attempts w (Suc k) n),
            Wait_for_selector search_bar 30000 # Reload # snd (login_attempts w (Suc k) n)))"
  by (simp split: prod.splits)

lemma login_attempts_events:
  "set (snd (login_attempts w k n)) \<subseteq> {Wait_for_selector search_bar 30000, Reload}"
  by (induction n arbitrary: k)
    (auto simp: login_attempts_Suc simp del: login_attempts.simps(2))

lemma Telegram_send_alt:
  "Telegram_send env user_search message =
     [Log_info (''User to search: '' @ user_search),
      Log_info (''Message to send: '' @ message)] @
     snd (login_attempts (search_bar_appears env) 0 3) @
     (if fst (login_attempts (search_bar_appears env) 0 3) then
        [Storage_state session_file, Fill search_bar user_search, Press search_bar ''Enter'',
         Wait_for_timeout 1000, Is_visible chats_result] @
        (if result_visible env then
           [Click chats_result, Wait_for_timeout 1000, Fill message_input message,
            Click send_button,
            Log_info (''Sent message to '' @ user_search @ '': '' @ message),
            Storage_state session_file, Close_context]
         else [Log_error ''No users found, aborting.'', Close_context])
      else [Log_error ''Failed to log in to Telegram after multiple attempts'', Close_context])"
  by (simp add: Telegram_send_def split: prod.splits)

lemma Telegram_no_entry_click: "Entry_click j \<notin> set (Telegram env title)"
  using login_attempts_events [of "search_bar_appears env" 0 3]
  by (auto simp: Telegram_def Telegram_open_def Telegram_send_alt Let_def)

lemma Telegram_no_call: "Call_Telegram t \<notin> set (Telegram env title)"
  using login_attempts_events [of "search_bar_appears env" 0 3]
  by (auto simp: Telegram_def Telegram_open_def Telegram_send_alt Let_def)

lemma dispatch_clicks: "dispatch tenv title = Inr tr \<Longrightarrow> Entry_click j \<notin> set tr"
  using Telegram_no_entry_click by (auto simp: dispatch_def split: sum.splits if_splits)

lemma dispatch_calls: "dispatch tenv title = Inr tr \<Longrightarrow> Call_Telegram t \<in> set tr \<Longrightarrow> t = title"
  using Telegram_no_call by (auto simp: dispatch_def split: sum.splits if_splits)

text \<open>One cycle, by cases on what the journal site answers and on the ledger.\<close>

lemma poll_cycle_alt:
  "poll_cycle env db =
     (case list_wait_error env of
        Some msg \<Rightarrow>
          \<lparr>raised = None, ledger_after = db,
           events = cycle_start @ [Log_error (''Error waiting for journal entries: '' @ msg)]\<rparr>
      | None \<Rightarrow>
          (case find (\<lambda>e. svg_count e = 0) (entries env) of
             None \<Rightarrow>
               \<lparr>raised = None, ledger_after = db,
                events = cycle_start @ snd (select_entry (entries env) 0) @
                  [Log_info ''No valid entries without SVG found, reloading...'']\<rparr>
           | Some e \<Rightarrow>
               if entry_exists db (entry_title e) (entry_date e) (entry_time e) then
                 \<lparr>raised = None, ledger_after = db,
                  events = cycle_start @ snd (select_entry (entries env) 0) @ read_details @
                    [Log_info ''DB entry already exists, reloading to check for new entries...'']\<rparr>
               else
                 (case dispatch (telegram_env env) (entry_title e) of
                    Inl err \<Rightarrow>
                      \<lparr>raised = Some err,
                       ledger_after = save_entry db (entry_title e) (entry_date e) (entry_time e),
                       events = cycle_start @ snd (select_entry (entries env) 0) @ read_details @
                         [Log_info (''Saved entry: '' @ entry_title e @ '', '' @ entry_date e @
                                    '', '' @ entry_time e)]\<rparr>
                  | Inr tr \<Rightarrow>
                      \<lparr>raised = None,
                       ledger_after = save_entry db (entry_title e) (entry_date e) (entry_time e),
                       events = cycle_start @ snd (select_entry (entries env) 0) @ read_details @
                         [Log_info (''Saved entry: '' @ entry_title e @ '', '' @ entry_date e @
                                    '', '' @ entry_time e)] @ tr\<rparr>)))"
proof -
  obtain r tr1 where sel: "select_entry (entries env) 0 = (r, tr1)"
    by (cases "select_entry (entries env) 0")
  have r: "find (\<lambda>e. svg_count e = 0) (entries env) = r"
    using select_entry_fst [of "entries env" 0] sel by simp
  show ?thesis
    by (simp add: poll_cycle_def sel r Let_def cycle_start_def read_details_def
        split: option.splits sum.splits)
qed

lemma Log_info_not_select: "Log_info s \<notin> set (snd (select_entry es i))"
  by (auto simp: select_entry_snd)

text \<open>
  Claim C2.  When the list is rendered, the cycle extracts the entry \<open>e\<close> (the first item
  without an \<open>svg\<close>) and the key of \<open>e\<close> is already in the ledger, the cycle only logs
  that the entry exists: the ledger is returned as it was, so no row is inserted, and the
  dispatch step is not run: no first word is logged and \<open>Telegram\<close> is not called.
\<close>

theorem known_entry_skipped:
  assumes "list_wait_error env = None"
    and "find (\<lambda>x. svg_count x = 0) (entries env) = Some e"
    and "entry_exists db (entry_title e) (entry_date e) (entry_time e)"
  shows "poll_cycle env db =
           \<lparr>raised = None, ledger_after = db,
            events = cycle_start @ snd (select_entry (entries env) 0) @ read_details @
              [Log_info ''DB entry already exists, reloading to check for new entries...'']\<rparr> \<and>
         rows (ledger_after (poll_cycle env db)) = rows db \<and>
         (\<forall>t. Call_Telegram t \<notin> set (events (poll_cycle env db))) \<and>
         (\<forall>w. Log_info (''First word of title: '' @ w) \<notin> set (events (poll_cycle env db)))"
proof -
  have eq: "poll_cycle env db =
           \<lparr>raised = None, ledger_after = db,
            events = cycle_start @ snd (select_entry (entries env) 0) @ read_details @
              [Log_info ''DB entry already exists, reloading to check for new entries...'']\<rparr>"
    using assms by (simp add: poll_cycle_alt)
  have calls: "Call_Telegram t \<notin> set (events (poll_cycle env db))" for t
    using call_not_select [of t "entries env" 0]
    by (simp add: eq cycle_start_def read_details_def)
  have logs: "Log_info (''First word of title: '' @ w) \<notin> set (events (poll_cycle env db))" for w
    using Log_info_not_select [of "''First word of title: '' @ w" "entries env" 0]
    by (simp add: eq cycle_start_def read_details_def)
  show ?thesis
    using eq calls logs by simp
qed

theorem known_entry_skipped_witness:
  "list_wait_error sample_cycle = None \<and>
   find (\<lambda>x. svg_count x = 0) (entries sample_cycle) = Some (sample_entries ! 1) \<and>
   entry_exists (save_entry empty_ledger ''telegram alice hello there'' ''Nov 3'' ''09:30'')
     (entry_title (sample_entries ! 1)) (entry_date (sample_entries ! 1))
     (entry_time (sample_entries ! 1)) \<and>
   rows (ledger_after (poll_cycle sample_cycle
       (save_entry empty_ledger ''telegram alice hello there'' ''Nov 3'' ''09:30''))) =
     rows (save_entry empty_ledger ''telegram alice hello there'' ''Nov 3'' ''09:30'') \<and>
   Call_Telegram ''telegram alice hello there'' \<notin> set (events (poll_cycle sample_cycle
       (save_entry empty_ledger ''telegram alice hello there'' ''Nov 3'' ''09:30'')))"
proof -
  have h1: "list_wait_error sample_cycle = None"
    by (simp add: sample_cycle_def)
  have h2: "find (\<lambda>x. svg_count x = 0) (entries sample_cycle) = Some (sample_entries ! 1)"
    by (simp add: sample_cycle_def sample_entries_def)
  have h3: "entry_exists (save_entry empty_ledger ''telegram alice hello there'' ''Nov 3'' ''09:30'')
      (entry_title (sample_entries ! 1)) (entry_date (sample_entries ! 1))
      (entry_time (sample_entries ! 1))"
    by (simp add: sample_entries_def entry_exists_def save_entry_def row_matches_def)
  from known_entry_skipped [OF h1 h2 h3] h1 h2 h3 show ?thesis
    by blast
qed

text \<open>
  Claim C3.  In every poll cycle an item that carries an \<open>svg\<close> is never clicked; the
  only item that can be clicked is the first one in document order without an \<open>svg\<close>,
  and whenever the list is rendered and has such an item, the cycle does click it;
  the ledger is either unchanged or extended by the key of that first unmarked item; and
  \<open>Telegram\<close> is only ever called with the title of that item.  When the list is rendered
  and every item carries an \<open>svg\<close>, the cycle inspects each item, logs that no valid entry
  was found and goes on to the next iteration with the ledger unchanged.
\<close>

theorem marker_exclusion:
  "(j < length (entries env) \<and> svg_count (entries env ! j) \<noteq> 0 \<longrightarrow>
      Entry_click j \<notin> set (events (poll_cycle env db))) \<and>
   (Entry_click i \<in> set (events (poll_cycle env db)) \<longrightarrow> first_unmarked (entries env) i) \<and>
   (list_wait_error env = None \<and> first_unmarked (entries env) i \<longrightarrow>
      Entry_click i \<in> set (events (poll_cycle env db))) \<and>
   (ledger_after (poll_cycle env db) = db \<or>
    (\<exists>i. first_unmarked (entries env) i \<and>
         ledger_after (poll_cycle env db) =
           save_entry db (entry_title (entries env ! i)) (entry_date (entries env ! i))
             (entry_time (entries env ! i)))) \<and>
   (Call_Telegram t \<in> set (events (poll_cycle env db)) \<longrightarrow>
      (\<exists>i. first_unmarked (entries env) i \<and> t = entry_title (entries env ! i))) \<and>
   (list_wait_error env = None \<and> list_all (\<lambda>e. svg_count e \<noteq> 0) (entries env) \<longrightarrow>
      poll_cycle env db =
        \<lparr>raised = None, ledger_after = db,
         events = cycle_start @ map Svg_count [0..<length (entries env)] @
           [Log_info ''No valid entries without SVG found, reloading...'']\<rparr>)"
proof -
  have clicks: "first_unmarked (entries env) i"
    if "Entry_click i \<in> set (events (poll_cycle env db))" for i
  proof -
    from that have "Entry_click i \<in> set (snd (select_entry (entries env) 0))"
      by (auto simp: poll_cycle_alt cycle_start_def read_details_def
          split: option.splits if_splits sum.splits dest: dispatch_clicks)
    then show ?thesis by (simp add: entry_click_select)
  qed
  have selected: "Entry_click i \<in> set (events (poll_cycle env db))"
    if "list_wait_error env = None" and "first_unmarked (entries env) i"
  proof -
    from that(2) have "Entry_click i \<in> set (snd (select_entry (entries env) 0))"
      by (simp add: entry_click_select)
    with that(1) show ?thesis
      by (simp add: poll_cycle_alt split: option.splits sum.splits)
  qed
  have marked: "Entry_click j \<notin> set (events (poll_cycle env db))"
    if "j < length (entries env)" and "svg_count (entries env ! j) \<noteq> 0"
    using that clicks [of j] by (auto simp: first_unmarked_def)
  have ledger: "ledger_after (poll_cycle env db) = db \<or>
    (\<exists>i. first_unmarked (entries env) i \<and>
         ledger_after (poll_cycle env db) =
           save_entry db (entry_title (entries env ! i)) (entry_date (entries env ! i))
             (entry_time (entries env ! i)))"
    by (auto simp: poll_cycle_alt split: option.splits sum.splits
        dest!: find_first_unmarked)
  have calls: "\<exists>i. first_unmarked (entries env) i \<and> t = entry_title (entries env ! i)"
    if "Call_Telegram t \<in> set (events (poll_cycle env db))"
    using that call_not_select [of t "entries env" 0]
    by (auto simp: poll_cycle_alt cycle_start_def read_details_def
        split: option.splits if_splits sum.splits
        dest!: find_first_unmarked dest: dispatch_calls)
  have none: "poll_cycle env db =
        \<lparr>raised = None, ledger_after = db,
         events = cycle_start @ map Svg_count [0..<length (entries env)] @
           [Log_info ''No valid entries without SVG found, reloading...'']\<rparr>"
    if "list_wait_error env = None" and "list_all (\<lambda>e. svg_count e \<noteq> 0) (entries env)"
  proof -
    from that(2) have tw: "takeWhile (\<lambda>e. svg_count e \<noteq> 0) (entries env) = entries env"
      by (simp add: list_all_iff)
    have "snd (select_entry (entries env) 0) = map Svg_count [0..<length (entries env)]"
      unfolding select_entry_snd tw by simp
    moreover from that(2) have "find (\<lambda>e. svg_count e = 0) (entries env) = None"
      by (simp add: find_none_marked)
    ultimately show ?thesis
      using that(1) by (simp add: poll_cycle_alt)
  qed
  show ?thesis
    using clicks selected marked ledger calls none by blast
qed

lemma dispatch_routes:
  assumes "3 \<le> length (str_split t)" and "first_word t = Inr ''telegram''"
  shows "dispatch env t =
        Inr ([Log_info ''First word of title: telegram'',
              Log_info (''Calling Telegram function with title: '' @ t),
              Call_Telegram t] @
             Telegram_open env @
             Telegram_send env (str_split t ! 1) (str_join '' '' (drop 2 (str_split t))))"
  using assms re_match_telegram by (simp add: dispatch_def Telegram_def Let_def)

lemma split_alice: "str_split ''telegram alice hello there'' =
      [''telegram'', ''alice'', ''hello'', ''there'']"
  by code_simp

lemma first_word_alice: "first_word ''telegram alice hello there'' = Inr ''telegram''"
  by code_simp

theorem insert_not_unique_witness:
  "distinct (map row_key (rows empty_ledger)) \<and>
   distinct (map row_key (rows (ledger_after (run_cycles [sample_cycle, sample_cycle] empty_ledger))))"
  using insert_not_unique [of empty_ledger "''a''" "''b''" "''c''" "[sample_cycle, sample_cycle]"]
  by (simp add: empty_ledger_def)

theorem marker_exclusion_witness:
  "0 < length (entries sample_cycle) \<and> svg_count (entries sample_cycle ! 0) \<noteq> 0 \<and>
   Entry_click 0 \<notin> set (events (poll_cycle sample_cycle empty_ledger)) \<and>
   Entry_click 1 \<in> set (events (poll_cycle sample_cycle empty_ledger)) \<and>
   list_wait_error sample_cycle = None \<and>
   first_unmarked (entries sample_cycle) 1 \<and>
   Call_Telegram ''telegram alice hello there''
     \<in> set (events (poll_cycle sample_cycle empty_ledger)) \<and>
   list_wait_error marked_cycle = None \<and>
   list_all (\<lambda>e. svg_count e \<noteq> 0) (entries marked_cycle) \<and>
   poll_cycle marked_cycle empty_ledger =
     \<lparr>raised = None, ledger_after = empty_ledger,
      events = cycle_start @ map Svg_count [0..<length (entries marked_cycle)] @
        [Log_info ''No valid entries without SVG found, reloading...'']\<rparr>"
proof -
  have h1: "0 < length (entries sample_cycle) \<and> svg_count (entries sample_cycle ! 0) \<noteq> 0"
    by (simp add: sample_cycle_def sample_entries_def)
  have d: "dispatch sample_tg ''telegram alice hello there'' =
      Inr ([Log_info ''First word of title: telegram'',
              Log_info (''Calling Telegram function with title: '' @ ''telegram alice hello there''),
              Call_Telegram ''telegram alice hello there''] @
             Telegram_open sample_tg @
             Telegram_send sample_tg (str_split ''telegram alice hello there'' ! 1)
               (str_join '' '' (drop 2 (str_split ''telegram alice hello there''))))"
    by (rule dispatch_routes) (simp_all add: split_alice first_word_alice)
  have f: "find (\<lambda>e. svg_count e = 0) (entries sample_cycle) = Some (sample_entries ! 1)"
    by (simp add: sample_cycle_def sample_entries_def)
  have ev: "events (poll_cycle sample_cycle empty_ledger) =
      cycle_start @ snd (select_entry (entries sample_cycle) 0) @ read_details @
        [Log_info (''Saved entry: '' @ entry_title (sample_entries ! 1) @ '', '' @
           entry_date (sample_entries ! 1) @ '', '' @ entry_time (sample_entries ! 1))] @
        [Log_info ''First word of title: telegram'',
              Log_info (''Calling Telegram function with title: '' @ ''telegram alice hello there''),
              Call_Telegram ''telegram alice hello there''] @
             Telegram_open sample_tg @
             Telegram_send sample_tg (str_split ''telegram alice hello there'' ! 1)
               (str_join '' '' (drop 2 (str_split ''telegram alice hello there'')))"
    unfolding poll_cycle_alt f
    by (simp add: sample_cycle_def sample_entries_def entry_exists_def empty_ledger_def d)
  have h2: "Entry_click 1 \<in> set (events (poll_cycle sample_cycle empty_ledger))"
    unfolding ev by (simp add: sample_cycle_def sample_entries_def)
  have h3: "Call_Telegram ''telegram alice hello there''
     \<in> set (events (poll_cycle sample_cycle empty_ledger))"
    unfolding ev by simp
  have h4: "list_wait_error marked_cycle = None \<and>
      list_all (\<lambda>e. svg_count e \<noteq> 0) (entries marked_cycle)"
    by (simp add: marked_cycle_def marked_entries_def)
  have h5: "list_wait_error sample_cycle = None"
    by (simp add: sample_cycle_def)
  from marker_exclusion [of 0 sample_cycle empty_ledger 1 "''telegram alice hello there''"]
    marker_exclusion [of 0 marked_cycle empty_ledger 0 "''''"] h1 h2 h3 h4 h5
  show ?thesis by blast
qed

section \<open>Blank titles\<close>

lemma split_from_Nil: "split_from cur s = [] \<longleftrightarrow> cur = [] \<and> list_all isspace s"
  by (induction s arbitrary: cur) simp_all

text \<open>
  Claim C10.  \<open>title.split()\<close> is empty exactly when the title is empty or consists of
  whitespace only.  For such a title line 197 raises \<open>IndexError\<close>, and so does the
  dispatch step.  In a poll cycle that extracts a new entry with such a title the entry
  is saved first, then the exception leaves the cycle: nothing is logged about a
  malformed command, and the polling loop ends with this cycle.
\<close>

theorem blank_title_raises:
  "(str_split title = [] \<longleftrightarrow> list_all isspace title) \<and>
   (list_all isspace title \<longrightarrow>
      first_word title = Inl IndexError \<and> dispatch tenv title = Inl IndexError) \<and>
   (list_wait_error env = None \<and>
    find (\<lambda>x. svg_count x = 0) (entries env) = Some e \<and>
    list_all isspace (entry_title e) \<and>
    \<not> entry_exists db (entry_title e) (entry_date e) (entry_time e) \<longrightarrow>
      poll_cycle env db =
        \<lparr>raised = Some IndexError,
         ledger_after = save_entry db (entry_title e) (entry_date e) (entry_time e),
         events = cycle_start @ snd (select_entry (entries env) 0) @ read_details @
           [Log_info (''Saved entry: '' @ entry_title e @ '', '' @ entry_date e @ '', '' @
                      entry_time e)]\<rparr> \<and>
      run_cycles (env # envs) db = poll_cycle env db)"
proof -
  have split: "str_split t = [] \<longleftrightarrow> list_all isspace t" for t
    by (simp add: str_split_def split_from_Nil)
  have raise: "first_word t = Inl IndexError \<and> dispatch te t = Inl IndexError"
    if "list_all isspace t" for t te
    using that split [of t] by (simp add: first_word_def dispatch_def)
  have cycle: "poll_cycle env db =
        \<lparr>raised = Some IndexError,
         ledger_after = save_entry db (entry_title e) (entry_date e) (entry_time e),
         events = cycle_start @ snd (select_entry (entries env) 0) @ read_details @
           [Log_info (''Saved entry: '' @ entry_title e @ '', '' @ entry_date e @ '', '' @
                      entry_time e)]\<rparr>"
    if "list_wait_error env = None" and "find (\<lambda>x. svg_count x = 0) (entries env) = Some e"
      and "list_all isspace (entry_title e)"
      and "\<not> entry_exists db (entry_title e) (entry_date e) (entry_time e)"
    using that raise [of "entry_title e" "telegram_env env"] by (simp add: poll_cycle_alt)
  have stop: "run_cycles (env # envs) db = poll_cycle env db"
    if "raised (poll_cycle env db) = Some IndexError"
    using that by (simp add: Let_def)
  have both: "poll_cycle env db =
        \<lparr>raised = Some IndexError,
         ledger_after = save_entry db (entry_title e) (entry_date e) (entry_time e),
         events = cycle_start @ snd (select_entry (entries env) 0) @ read_details @
           [Log_info (''Saved entry: '' @ entry_title e @ '', '' @ entry_date e @ '', '' @
                      entry_time e)]\<rparr> \<and>
      run_cycles (env # envs) db = poll_cycle env db"
    if "list_wait_error env = None" and "find (\<lambda>x. svg_count x = 0) (entries env) = Some e"
      and "list_all isspace (entry_title e)"
      and "\<not> entry_exists db (entry_title e) (entry_date e) (entry_time e)"
  proof -
    note c = cycle [OF that]
    then have "raised (poll_cycle env db) = Some IndexError" by simp
    with c stop show ?thesis by blast
  qed
  show ?thesis
    using split [of title] raise [of title tenv] both by blast
qed

theorem blank_title_raises_witness:
  "list_all isspace ''  '' \<and>
   first_word ''  '' = Inl IndexError \<and> dispatch sample_tg ''  '' = Inl IndexError \<and>
   list_wait_error blank_cycle = None \<and>
   find (\<lambda>x. svg_count x = 0) (entries blank_cycle) = Some (entries blank_cycle ! 0) \<and>
   list_all isspace (entry_title (entries blank_cycle ! 0)) \<and>
   \<not> entry_exists empty_ledger (entry_title (entries blank_cycle ! 0))
       (entry_date (entries blank_cycle ! 0)) (entry_time (entries blank_cycle ! 0)) \<and>
   run_cycles [blank_cycle, sample_cycle] empty_ledger = poll_cycle blank_cycle empty_ledger"
proof -
  have h0: "list_all isspace ''  ''"
    by (simp add: isspace_def)
  have h1: "list_wait_error blank_cycle = None"
    by (simp add: blank_cycle_def)
  have h2: "find (\<lambda>x. svg_count x = 0) (entries blank_cycle) = Some (entries blank_cycle ! 0)"
    by (simp add: blank_cycle_def)
  have h3: "list_all isspace (entry_title (entries blank_cycle ! 0))"
    by (simp add: blank_cycle_def isspace_def)
  have h4: "\<not> entry_exists empty_ledger (entry_title (entries blank_cycle ! 0))
       (entry_date (entries blank_cycle ! 0)) (entry_time (entries blank_cycle ! 0))"
    by (simp add: entry_exists_def empty_ledger_def)
  from blank_title_raises [of "''  ''" sample_tg blank_cycle "entries blank_cycle ! 0"
      empty_ledger "[sample_cycle]"] h0 h1 h2 h3 h4
  show ?thesis by blast
qed

section \<open>The messaging handler\<close>

lemma login_attempts_never:
  "(\<forall>k. \<not> w k) \<Longrightarrow>
   login_attempts w k n =
     (False, concat (replicate n [Wait_for_selector search_bar 30000, Reload]))"
  by (induction n arbitrary: k) simp_all

lemma login_attempts_waits:
  "length (filter is_marker_wait (snd (login_attempts w k n))) \<le> n"
  by (induction n arbitrary: k)
    (simp_all add: login_attempts_Suc del: login_attempts.simps(2))

lemma login_attempts_reloads:
  "length (filter is_reload (snd (login_attempts w k n))) \<le> n"
  by (induction n arbitrary: k)
    (simp_all add: login_attempts_Suc del: login_attempts.simps(2))

lemma login_attempts_quiet:
  "filter is_click (snd (login_attempts w k n)) = [] \<and>
   filter is_compose (snd (login_attempts w k n)) = []"
  by (induction n arbitrary: k)
    (simp_all add: login_attempts_Suc del: login_attempts.simps(2))

lemma login_attempts_success:
  "fst (login_attempts w 0 3) \<longleftrightarrow> w 0 \<or> w 1 \<or> w 2"
  by (auto simp: numeral_3_eq_3 numeral_2_eq_2 login_attempts_Suc
      simp del: login_attempts.simps(2))

lemma Telegram_waits: "length (filter is_marker_wait (Telegram env title)) \<le> 3"
  using login_attempts_waits [of "search_bar_appears env" 0 3]
  by (simp add: Telegram_def Telegram_open_def Telegram_send_alt Let_def)

lemma select_entry_no_wait: "filter is_marker_wait (snd (select_entry es i)) = []"
  by (simp add: select_entry_snd filter_empty_conv) auto

lemma dispatch_waits:
  "dispatch tenv title = Inr tr \<Longrightarrow> length (filter is_marker_wait tr) \<le> 3"
  using Telegram_waits [of tenv title]
  by (auto simp: dispatch_def split: sum.splits if_splits)

lemma poll_cycle_waits: "length (filter is_marker_wait (events (poll_cycle env db))) \<le> 3"
proof -
  have "entries_selector \<noteq> search_bar"
    by (simp add: entries_selector_def search_bar_def)
  then show ?thesis
    by (auto simp: poll_cycle_alt cycle_start_def read_details_def select_entry_no_wait
        split: option.splits sum.splits dest: dispatch_waits)
qed

text \<open>
  Claim C4.  When the search bar of the messaging site never appears, \<open>Telegram\<close> (called
  with a well-formed title) waits for it exactly three times, reloading the page after
  each timeout, then logs that the login failed, closes its context and returns: there
  is no fourth wait, and nothing is searched, filled, clicked or sent.  Whatever the
  site answers, one call of \<open>Telegram\<close> and one whole poll cycle contain at most three
  such waits and at most three reloads, so the caller does not retry within the cycle.
  The login on the journal site never reloads.
\<close>

theorem auth_retry_bound:
  "((\<forall>k. \<not> search_bar_appears env k) \<and> 3 \<le> length (str_split title) \<longrightarrow>
      Telegram env title =
        Telegram_open env @
        [Log_info (''User to search: '' @ str_split title ! 1),
         Log_info (''Message to send: '' @ str_join '' '' (drop 2 (str_split title))),
         Wait_for_selector search_bar 30000, Reload,
         Wait_for_selector search_bar 30000, Reload,
         Wait_for_selector search_bar 30000, Reload,
         Log_error ''Failed to log in to Telegram after multiple attempts'',
         Close_context]) \<and>
   length (filter is_marker_wait (Telegram env title)) \<le> 3 \<and>
   length (filter is_reload (Telegram env title)) \<le> 3 \<and>
   length (filter is_marker_wait (events (poll_cycle cenv db))) \<le> 3 \<and>
   filter is_reload (snd (journal_login menv)) = []"
proof -
  have fail: "Telegram env title =
        Telegram_open env @
        [Log_info (''User to search: '' @ str_split title ! 1),
         Log_info (''Message to send: '' @ str_join '' '' (drop 2 (str_split title))),
         Wait_for_selector search_bar 30000, Reload,
         Wait_for_selector search_bar 30000, Reload,
         Wait_for_selector search_bar 30000, Reload,
         Log_error ''Failed to log in to Telegram after multiple attempts'',
         Close_context]"
    if "\<forall>k. \<not> search_bar_appears env k" and "3 \<le> length (str_split title)"
  proof -
    have "login_attempts (search_bar_appears env) 0 3 =
        (False, concat (replicate 3 [Wait_for_selector search_bar 30000, Reload]))"
      using that(1) by (rule login_attempts_never)
    then show ?thesis
      using that(2) by (simp add: Telegram_def Telegram_send_def Let_def numeral_3_eq_3)
  qed
  have reloads: "length (filter is_reload (Telegram env title)) \<le> 3"
    using login_attempts_reloads [of "search_bar_appears env" 0 3]
    by (simp add: Telegram_def Telegram_open_def Telegram_send_alt Let_def)
  have journal: "filter is_reload (snd (journal_login menv)) = []"
    by (simp add: journal_login_def Let_def)
  show ?thesis
    using fail Telegram_waits reloads poll_cycle_waits journal by blast
qed

theorem auth_retry_bound_witness:
  "(\<forall>k. \<not> search_bar_appears offline_tg k) \<and>
   3 \<le> length (str_split ''telegram alice hello there'') \<and>
   Telegram offline_tg ''telegram alice hello there'' =
     Telegram_open offline_tg @
     [Log_info ''User to search: alice'',
      Log_info ''Message to send: hello there'',
      Wait_for_selector search_bar 30000, Reload,
      Wait_for_selector search_bar 30000, Reload,
      Wait_for_selector search_bar 30000, Reload,
      Log_error ''Failed to log in to Telegram after multiple attempts'',
      Close_context]"
proof -
  have h1: "\<forall>k. \<not> search_bar_appears offline_tg k"
    by (simp add: offline_tg_def)
  have h2: "3 \<le> length (str_split ''telegram alice hello there'')"
    by (simp add: split_alice)
  from auth_retry_bound [of offline_tg "''telegram alice hello there''"] h1 h2
  show ?thesis by (simp add: split_alice)
qed

lemma split_bob: "str_split ''telegram bob'' = [''telegram'', ''bob'']"
  by code_simp

lemma first_word_bob: "first_word ''telegram bob'' = Inr ''telegram''"
  by code_simp

text \<open>
  Claim C5.  When the title is well formed, one of the three waits for the search bar
  succeeds and the search shows no chat, \<open>Telegram\<close> logs \<open>No users found, aborting.\<close>,
  closes its context and returns.  The run contains no click at all (so no other chat is
  opened and nothing is sent) and no fill of the message field, and the session state
  has been written to the session file, right after the login.
\<close>

theorem target_not_found:
  "3 \<le> length (str_split title) \<and>
   (search_bar_appears env 0 \<or> search_bar_appears env 1 \<or> search_bar_appears env 2) \<and>
   \<not> result_visible env \<longrightarrow>
     Telegram env title =
       Telegram_open env @
       [Log_info (''User to search: '' @ str_split title ! 1),
        Log_info (''Message to send: '' @ str_join '' '' (drop 2 (str_split title)))] @
       snd (login_attempts (search_bar_appears env) 0 3) @
       [Storage_state session_file,
        Fill search_bar (str_split title ! 1),
        Press search_bar ''Enter'',
        Wait_for_timeout 1000,
        Is_visible chats_result,
        Log_error ''No users found, aborting.'',
        Close_context] \<and>
     filter is_click (Telegram env title) = [] \<and>
     filter is_compose (Telegram env title) = [] \<and>
     Storage_state session_file \<in> set (Telegram env title)"
proof (intro impI, elim conjE)
  assume words: "3 \<le> length (str_split title)"
    and login: "search_bar_appears env 0 \<or> search_bar_appears env 1 \<or> search_bar_appears env 2"
    and hidden: "\<not> result_visible env"
  from login have ok: "fst (login_attempts (search_bar_appears env) 0 3)"
    by (simp add: login_attempts_success)
  have run: "Telegram env title =
       Telegram_open env @
       [Log_info (''User to search: '' @ str_split title ! 1),
        Log_info (''Message to send: '' @ str_join '' '' (drop 2 (str_split title)))] @
       snd (login_attempts (search_bar_appears env) 0 3) @
       [Storage_state session_file,
        Fill search_bar (str_split title ! 1),
        Press search_bar ''Enter'',
        Wait_for_timeout 1000,
        Is_visible chats_result,
        Log_error ''No users found, aborting.'',
        Close_context]"
    using words ok hidden by (simp add: Telegram_def Telegram_send_alt Let_def)
  have differ: "search_bar \<noteq> message_input"
    by (simp add: search_bar_def message_input_def)
  have clicks: "filter is_click (Telegram env title) = []"
    unfolding run using login_attempts_quiet [of "search_bar_appears env" 0 3]
    by (simp add: Telegram_open_def)
  have compose: "filter is_compose (Telegram env title) = []"
    unfolding run using login_attempts_quiet [of "search_bar_appears env" 0 3] differ
    by (simp add: Telegram_open_def)
  have saved: "Storage_state session_file \<in> set (Telegram env title)"
    unfolding run by simp
  show "Telegram env title =
       Telegram_open env @
       [Log_info (''User to search: '' @ str_split title ! 1),
        Log_info (''Message to send: '' @ str_join '' '' (drop 2 (str_split title)))] @
       snd (login_attempts (search_bar_appears env) 0 3) @
       [Storage_state session_file,
        Fill search_bar (str_split title ! 1),
        Press search_bar ''Enter'',
        Wait_for_timeout 1000,
        Is_visible chats_result,
        Log_error ''No users found, aborting.'',
        Close_context] \<and>
     filter is_click (Telegram env title) = [] \<and>
     filter is_compose (Telegram env title) = [] \<and>
     Storage_state session_file \<in> set (Telegram env title)"
    using run clicks compose saved by blast
qed

theorem target_not_found_witness:
  "3 \<le> length (str_split ''telegram alice hello there'') \<and>
   search_bar_appears no_chat_tg 2 \<and> \<not> result_visible no_chat_tg \<and>
   filter is_click (Telegram no_chat_tg ''telegram alice hello there'') = [] \<and>
   filter is_compose (Telegram no_chat_tg ''telegram alice hello there'') = [] \<and>
   Storage_state session_file \<in> set (Telegram no_chat_tg ''telegram alice hello there'')"
proof -
  have h1: "3 \<le> length (str_split ''telegram alice hello there'')"
    by (simp add: split_alice)
  have h2: "search_bar_appears no_chat_tg 2 \<and> \<not> result_visible no_chat_tg"
    by (simp add: no_chat_tg_def)
  from target_not_found [of "''telegram alice hello there''" no_chat_tg] h1 h2
  show ?thesis by blast
qed

text \<open>
  Claim C6.  The title \<open>telegram bob\<close> has two tokens and its first word is \<open>telegram\<close>,
  so the dispatch step calls \<open>Telegram\<close> with it.  \<open>Telegram\<close> creates a browsing context,
  opens the site, logs \<open>Invalid prompt format for Telegram message.\<close> and returns
  without closing the context.
\<close>

theorem malformed_title_leaves_context_open:
  "dispatch env ''telegram bob'' =
     Inr ([Log_info ''First word of title: telegram'',
           Log_info ''Calling Telegram function with title: telegram bob'',
           Call_Telegram ''telegram bob''] @ Telegram env ''telegram bob'') \<and>
   Telegram env ''telegram bob'' =
     [Makedirs ''sessions'',
      New_context (if session_exists env then Some session_file else None),
      New_page,
      Goto ''https://web.telegram.org/k/'',
      Is_visible ''text=Chats'',
      Log_info (if chats_visible env then ''Already logged in to Telegram.''
                else ''Telegram session expired, logging in again.''),
      Log_error ''Invalid prompt format for Telegram message.''] \<and>
   Close_context \<notin> set (Telegram env ''telegram bob'')"
proof -
  have d: "dispatch env ''telegram bob'' =
     Inr ([Log_info ''First word of title: telegram'',
           Log_info ''Calling Telegram function with title: telegram bob'',
           Call_Telegram ''telegram bob''] @ Telegram env ''telegram bob'')"
    using re_match_telegram by (simp add: dispatch_def first_word_bob)
  have t: "Telegram env ''telegram bob'' =
     [Makedirs ''sessions'',
      New_context (if session_exists env then Some session_file else None),
      New_page,
      Goto ''https://web.telegram.org/k/'',
      Is_visible ''text=Chats'',
      Log_info (if chats_visible env then ''Already logged in to Telegram.''
                else ''Telegram session expired, logging in again.''),
      Log_error ''Invalid prompt format for Telegram message.'']"
    by (simp add: Telegram_def Telegram_open_def split_bob)
  have "Close_context \<notin> set (Telegram env ''telegram bob'')"
    unfolding t by simp
  with d t show ?thesis by blast
qed

text \<open>With three tokens or more, every path of \<open>Telegram\<close> ends by closing the context.\<close>

lemma Telegram_closes_context:
  "3 \<le> length (str_split title) \<Longrightarrow> last (Telegram env title) = Close_context"
  by (simp add: Telegram_def Telegram_send_alt Let_def)

text \<open>
  Claim C7, as stated, fails for the messaging site.  With no session file on disk
  \<open>Telegram\<close> creates its browsing context without stored state and writes no placeholder:
  in this run, where the login then fails, no file is written at all.
\<close>

theorem telegram_session_no_placeholder:
  "\<not> session_exists offline_tg \<and>
   take 2 (Telegram offline_tg ''telegram alice hello there'') =
     [Makedirs ''sessions'', New_context None] \<and>
   filter is_file_write (Telegram offline_tg ''telegram alice hello there'') = []"
proof -
  have "\<forall>k. \<not> search_bar_appears offline_tg k"
    by (simp add: offline_tg_def)
  then have "login_attempts (search_bar_appears offline_tg) 0 3 =
        (False, concat (replicate 3 [Wait_for_selector search_bar 30000, Reload]))"
    by (rule login_attempts_never)
  then have "Telegram offline_tg ''telegram alice hello there'' =
     Telegram_open offline_tg @
     [Log_info ''User to search: alice'',
      Log_info ''Message to send: hello there'',
      Wait_for_selector search_bar 30000, Reload,
      Wait_for_selector search_bar 30000, Reload,
      Wait_for_selector search_bar 30000, Reload,
      Log_error ''Failed to log in to Telegram after multiple attempts'',
      Close_context]"
    by (simp add: Telegram_def Telegram_send_def split_alice numeral_3_eq_3)
  then show ?thesis
    by (simp add: Telegram_open_def offline_tg_def)
qed

text \<open>
  Claim C7, amended.  For the journal site, the session file that the browsing context of
  \<open>main\<close> reads always exists and is not empty: a missing or zero-length file is replaced
  by the JSON text \<open>{}\<close>, written before the context is created, and any other file is
  left as it is.  For the messaging site, a missing session file is not replaced by a
  placeholder: the context is created without stored state.
\<close>

theorem session_bootstrap:
  "fst (prepare_state_file f) \<noteq> None \<and> fst (prepare_state_file f) \<noteq> Some [] \<and>
   (f = None \<or> f = Some [] \<longrightarrow>
      prepare_state_file f =
        (Some ''{}'', [Makedirs ''sessions'', Write_file state_file ''{}''])) \<and>
   (f \<noteq> None \<and> f \<noteq> Some [] \<longrightarrow> prepare_state_file f = (f, [Makedirs ''sessions''])) \<and>
   startup_state_file (main_startup menv) = fst (prepare_state_file (state_file_content menv)) \<and>
   take (length (snd (prepare_state_file (state_file_content menv))) + 2)
       (startup_events (main_startup menv)) =
     snd (prepare_state_file (state_file_content menv)) @
     [Launch, New_context (Some state_file)] \<and>
   (\<not> session_exists tenv \<longrightarrow>
      take 2 (Telegram tenv title) = [Makedirs ''sessions'', New_context None])"
proof -
  have a: "fst (prepare_state_file f) \<noteq> None \<and> fst (prepare_state_file f) \<noteq> Some []"
    by (simp add: prepare_state_file_def)
  have b: "prepare_state_file f =
        (Some ''{}'', [Makedirs ''sessions'', Write_file state_file ''{}''])"
    if "f = None \<or> f = Some []"
    using that by (auto simp: prepare_state_file_def)
  have c: "prepare_state_file f = (f, [Makedirs ''sessions''])"
    if "f \<noteq> None \<and> f \<noteq> Some []"
    using that by (simp add: prepare_state_file_def)
  have d: "startup_state_file (main_startup menv) =
      fst (prepare_state_file (state_file_content menv))"
    by (simp add: main_startup_def split: prod.splits)
  have e: "take (length (snd (prepare_state_file (state_file_content menv))) + 2)
       (startup_events (main_startup menv)) =
     snd (prepare_state_file (state_file_content menv)) @
     [Launch, New_context (Some state_file)]"
    by (simp add: main_startup_def split: prod.splits)
  have g: "take 2 (Telegram tenv title) = [Makedirs ''sessions'', New_context None]"
    if "\<not> session_exists tenv"
    using that by (simp add: Telegram_def Telegram_open_def)
  show ?thesis
    using a b c d e g by blast
qed

theorem session_bootstrap_witness:
  "prepare_state_file None =
     (Some ''{}'', [Makedirs ''sessions'', Write_file state_file ''{}'']) \<and>
   prepare_state_file (Some []) =
     (Some ''{}'', [Makedirs ''sessions'', Write_file state_file ''{}'']) \<and>
   Some ''{ }'' \<noteq> None \<and> Some ''{ }'' \<noteq> Some [] \<and>
   prepare_state_file (Some ''{ }'') = (Some ''{ }'', [Makedirs ''sessions'']) \<and>
   \<not> session_exists offline_tg \<and>
   take 2 (Telegram offline_tg ''telegram bob'') = [Makedirs ''sessions'', New_context None]"
proof -
  have h: "\<not> session_exists offline_tg"
    by (simp add: offline_tg_def)
  from session_bootstrap [of None fresh_main offline_tg "''telegram bob''"]
    session_bootstrap [of "Some []" fresh_main offline_tg "''telegram bob''"]
    session_bootstrap [of "Some ''{ }''" fresh_main offline_tg "''telegram bob''"] h
  show ?thesis by simp
qed

end
